theory Spec2Isabelle
  imports Complex_Main "HOL-Library.Multiset"
begin

section \<open>Floating-point values and Python errors\<close>

text \<open>
  The engine computes with IEEE doubles (Python \<^verbatim>\<open>float\<close>, numpy \<^verbatim>\<open>float64\<close>).
  They are idealised here: a finite double is a real number, rounding and overflow are
  not modelled. The one non-finite value the code produces by its structure is kept:
  \<^verbatim>\<open>np.mean\<close> of an empty array is \<^verbatim>\<open>nan\<close>, and \<^verbatim>\<open>nan\<close> propagates through arithmetic
  and through \<^verbatim>\<open>np.clip\<close>.
\<close>

datatype npfloat = Num real | NaN

instantiation npfloat :: "{zero, plus, minus, times}"
begin

definition zero_npfloat :: npfloat where
  "zero_npfloat = Num 0"

fun plus_npfloat :: "npfloat \<Rightarrow> npfloat \<Rightarrow> npfloat" where
  "plus_npfloat (Num a) (Num b) = Num (a + b)"
| "plus_npfloat _ _ = NaN"

fun minus_npfloat :: "npfloat \<Rightarrow> npfloat \<Rightarrow> npfloat" where
  "minus_npfloat (Num a) (Num b) = Num (a - b)"
| "minus_npfloat _ _ = NaN"

fun times_npfloat :: "npfloat \<Rightarrow> npfloat \<Rightarrow> npfloat" where
  "times_npfloat (Num a) (Num b) = Num (a * b)"
| "times_npfloat _ _ = NaN"

instance ..

end

text \<open>
  Exceptions are values. \<open>HTTPException\<close> carries the status code and the detail string
  of FastAPI's exception.
\<close>

datatype py_error =
    IndexError
  | KeyError
  | TypeError
  | ValueError
  | ZeroDivisionError
  | HTTPException nat string

text \<open>Sequencing of computations that may raise: the first error wins.\<close>

fun bnd :: "py_error + 'a \<Rightarrow> ('a \<Rightarrow> py_error + 'b) \<Rightarrow> py_error + 'b" where
  "bnd (Inl e) f = Inl e"
| "bnd (Inr x) f = f x"

text \<open>
  \<^verbatim>\<open>xs[i]\<close> for a non-negative index: \<^verbatim>\<open>IndexError\<close> out of range. On an attribute
  that is still \<^verbatim>\<open>None\<close> subscripting raises \<^verbatim>\<open>TypeError\<close>.
\<close>

definition py_get :: "'a list \<Rightarrow> nat \<Rightarrow> py_error + 'a" where
  "py_get xs i = (if i < length xs then Inr (xs ! i) else Inl IndexError)"

definition arr_get :: "'a list option \<Rightarrow> nat \<Rightarrow> py_error + 'a" where
  "arr_get a i = (case a of None \<Rightarrow> Inl TypeError | Some xs \<Rightarrow> py_get xs i)"

text \<open>
  \<^verbatim>\<open>xs[start:stop]\<close> with a non-negative start and any integer stop: a negative stop
  counts from the end, and both ends are clamped to the list.
\<close>

definition py_slice :: "'a list \<Rightarrow> nat \<Rightarrow> int \<Rightarrow> 'a list" where
  "py_slice xs start stop =
     (let n = int (length xs);
          e = (if stop < 0 then max 0 (n + stop) else min stop n)
      in drop start (take (nat e) xs))"

section \<open>numpy\<close>

text \<open>\<^verbatim>\<open>np.unique\<close>: the distinct values, sorted ascending.\<close>

definition np_unique :: "int list \<Rightarrow> int list" where
  "np_unique xs = sort (remdups xs)"

text \<open>\<^verbatim>\<open>np.mean\<close>: \<^verbatim>\<open>nan\<close> (with a warning, no exception) on an empty array.\<close>

definition np_mean :: "real list \<Rightarrow> npfloat" where
  "np_mean xs = (if xs = [] then NaN else Num (sum_list xs / real (length xs)))"

text \<open>\<^verbatim>\<open>np.dot\<close> of two one-dimensional arrays: \<^verbatim>\<open>ValueError\<close> when the shapes differ.\<close>

definition np_dot :: "npfloat list \<Rightarrow> npfloat list \<Rightarrow> py_error + npfloat" where
  "np_dot a b =
     (if length a = length b then Inr (foldr (+) (map2 (*) a b) 0) else Inl ValueError)"

text \<open>\<^verbatim>\<open>np.clip(x, lo, hi)\<close> is \<^verbatim>\<open>minimum(maximum(x, lo), hi)\<close>; \<^verbatim>\<open>nan\<close> stays \<^verbatim>\<open>nan\<close>.\<close>

fun np_clip :: "npfloat \<Rightarrow> real \<Rightarrow> real \<Rightarrow> npfloat" where
  "np_clip (Num x) lo hi = Num (min (max x lo) hi)"
| "np_clip NaN lo hi = NaN"

text \<open>Elementwise array arithmetic on rows of equal length.\<close>

definition vec_add :: "npfloat list \<Rightarrow> npfloat list \<Rightarrow> npfloat list" where
  "vec_add a b = map2 (+) a b"

definition vec_sub :: "npfloat list \<Rightarrow> npfloat list \<Rightarrow> npfloat list" where
  "vec_sub a b = map2 (-) a b"

definition vec_scale :: "npfloat \<Rightarrow> npfloat list \<Rightarrow> npfloat list" where
  "vec_scale c a = map ((*) c) a"

text \<open>
  The random generator (\<^verbatim>\<open>np.random.default_rng\<close>, PCG64) is numpy's, not the
  repository's: it is a parameter. \<open>'g\<close> is the generator's state; \<open>default_rng seed\<close>
  is the seeded state, \<open>normal g loc scale n f\<close> draws an \<open>n\<close> by \<open>f\<close> array and
  \<open>shuffle g xs\<close> permutes \<open>xs\<close>, each returning the advanced state.
\<close>

record 'g np_rng =
  default_rng :: "nat \<Rightarrow> 'g"
  normal :: "'g \<Rightarrow> real \<Rightarrow> real \<Rightarrow> nat \<Rightarrow> nat \<Rightarrow> real list list \<times> 'g"
  shuffle :: "'g \<Rightarrow> nat list \<Rightarrow> nat list \<times> 'g"

section \<open>The latent factor model (svd\_model.py)\<close>

text \<open>
  \<^verbatim>\<open>class SVDModel\<close>. The four arrays are \<^verbatim>\<open>None\<close> until \<^verbatim>\<open>fit\<close> assigns them.
  A dict is an association list read with \<open>map_of\<close>. \<open>n_factors\<close> and \<open>n_epochs\<close> are
  counts (a negative \<^verbatim>\<open>n_epochs\<close> runs no epoch, as \<open>0\<close> does).
\<close>

record SVDModel =
  n_factors :: nat
  n_epochs :: nat
  lr :: real
  reg :: real
  global_mean :: npfloat
  user_bias :: "npfloat list option"
  item_bias :: "npfloat list option"
  user_factors :: "npfloat list list option"
  item_factors :: "npfloat list list option"
  user_map :: "(int \<times> nat) list"
  item_map :: "(int \<times> nat) list"

text \<open>\<^verbatim>\<open>SVDModel.__init__\<close>\<close>

definition SVDModel_init :: "nat \<Rightarrow> nat \<Rightarrow> real \<Rightarrow> real \<Rightarrow> SVDModel" where
  "SVDModel_init nf ne l r =
     \<lparr>n_factors = nf, n_epochs = ne, lr = l, reg = r, global_mean = Num 0,
      user_bias = None, item_bias = None, user_factors = None, item_factors = None,
      user_map = [], item_map = []\<rparr>"

text \<open>\<^verbatim>\<open>SVDModel.predict\<close>\<close>

definition predict :: "SVDModel \<Rightarrow> int \<Rightarrow> int \<Rightarrow> py_error + npfloat" where
  "predict self user_id item_id =
     (case map_of (user_map self) user_id of
        None \<Rightarrow> Inr (global_mean self)
      | Some u \<Rightarrow>
          (case map_of (item_map self) item_id of
             None \<Rightarrow> Inr (global_mean self)
           | Some i \<Rightarrow>
               bnd (arr_get (user_bias self) u) (\<lambda>bu.
               bnd (arr_get (item_bias self) i) (\<lambda>bi.
               bnd (arr_get (user_factors self) u) (\<lambda>pu.
               bnd (arr_get (item_factors self) i) (\<lambda>qi.
               bnd (np_dot pu qi) (\<lambda>d.
                 Inr (np_clip (global_mean self + bu + bi + d) (1 / 2) 5))))))))"

text \<open>
  The four in-place updates of one SGD step (lines 70 to 79), in the order the source
  makes them. Each reads the array as it is when the statement runs. The reads of lines
  63 to 65 have succeeded when they run, so the rows exist.
\<close>

definition upd_user_bias :: "SVDModel \<Rightarrow> nat \<Rightarrow> npfloat \<Rightarrow> SVDModel" where
  "upd_user_bias s u err =
     (case user_bias s of
        None \<Rightarrow> s
      | Some b \<Rightarrow> s\<lparr>user_bias := Some (b[u := b ! u + Num (lr s) * (err - Num (reg s) * (b ! u))])\<rparr>)"

definition upd_item_bias :: "SVDModel \<Rightarrow> nat \<Rightarrow> npfloat \<Rightarrow> SVDModel" where
  "upd_item_bias s i err =
     (case item_bias s of
        None \<Rightarrow> s
      | Some b \<Rightarrow> s\<lparr>item_bias := Some (b[i := b ! i + Num (lr s) * (err - Num (reg s) * (b ! i))])\<rparr>)"

definition row_copy :: "npfloat list list option \<Rightarrow> nat \<Rightarrow> npfloat list" where
  "row_copy a k = (case a of None \<Rightarrow> [] | Some rows \<Rightarrow> rows ! k)"

definition upd_user_factors :: "SVDModel \<Rightarrow> nat \<Rightarrow> nat \<Rightarrow> npfloat \<Rightarrow> SVDModel" where
  "upd_user_factors s u i err =
     (case user_factors s of
        None \<Rightarrow> s
      | Some P \<Rightarrow>
          s\<lparr>user_factors := Some (P[u := vec_add (P ! u)
              (vec_scale (Num (lr s))
                 (vec_sub (vec_scale err (row_copy (item_factors s) i))
                          (vec_scale (Num (reg s)) (P ! u))))])\<rparr>)"

definition upd_item_factors :: "SVDModel \<Rightarrow> nat \<Rightarrow> npfloat list \<Rightarrow> npfloat \<Rightarrow> SVDModel" where
  "upd_item_factors s i uf err =
     (case item_factors s of
        None \<Rightarrow> s
      | Some Q \<Rightarrow>
          s\<lparr>item_factors := Some (Q[i := vec_add (Q ! i)
              (vec_scale (Num (lr s))
                 (vec_sub (vec_scale err uf)
                          (vec_scale (Num (reg s)) (Q ! i))))])\<rparr>)"

text \<open>
  The body of the inner loop of \<^verbatim>\<open>fit\<close> (lines 57 to 79) for one index. Every read that
  can raise comes before the first assignment, so an exception leaves the model as it
  was before this iteration.
\<close>

definition sgd_step ::
  "nat list \<Rightarrow> nat list \<Rightarrow> real list \<Rightarrow> SVDModel \<Rightarrow> nat \<Rightarrow> py_error + SVDModel" where
  "sgd_step u_indices i_indices ratings self idx =
     bnd (py_get u_indices idx) (\<lambda>u.
     bnd (py_get i_indices idx) (\<lambda>i.
     bnd (py_get ratings idx) (\<lambda>r.
     bnd (arr_get (user_bias self) u) (\<lambda>bu.
     bnd (arr_get (item_bias self) i) (\<lambda>bi.
     bnd (arr_get (user_factors self) u) (\<lambda>pu.
     bnd (arr_get (item_factors self) i) (\<lambda>qi.
     bnd (np_dot pu qi) (\<lambda>d.
       let pred = global_mean self + bu + bi + d;
           err = Num r - pred;
           s1 = upd_user_bias self u err;
           s2 = upd_item_bias s1 i err;
           uf = row_copy (user_factors s2) u;
           s3 = upd_user_factors s2 u i err;
           s4 = upd_item_factors s3 i uf err
       in Inr s4))))))))"

text \<open>
  The inner loop over the shuffled indices. The result is the model as the loop left it
  and the exception that stopped it, if any.
\<close>

fun run_epoch ::
  "nat list \<Rightarrow> nat list \<Rightarrow> real list \<Rightarrow> nat list \<Rightarrow> SVDModel \<Rightarrow> SVDModel \<times> py_error option" where
  "run_epoch u_indices i_indices ratings [] self = (self, None)"
| "run_epoch u_indices i_indices ratings (idx # rest) self =
     (case sgd_step u_indices i_indices ratings self idx of
        Inl e \<Rightarrow> (self, Some e)
      | Inr s \<Rightarrow> run_epoch u_indices i_indices ratings rest s)"

text \<open>
  The outer loop (lines 51 to 83). After the inner loop \<^verbatim>\<open>total_error / len(ratings)\<close>
  is evaluated for the RMSE that is printed. With no ratings the inner loop has made no
  step, \<^verbatim>\<open>total_error\<close> is still the Python float \<^verbatim>\<open>0.0\<close>, and dividing it by the
  integer \<open>0\<close> raises \<^verbatim>\<open>ZeroDivisionError\<close>. The printing itself changes nothing.
\<close>

fun train_epochs ::
  "'g np_rng \<Rightarrow> nat list \<Rightarrow> nat list \<Rightarrow> real list \<Rightarrow> nat \<Rightarrow> 'g \<Rightarrow> SVDModel
     \<Rightarrow> SVDModel \<times> py_error option" where
  "train_epochs rng u_indices i_indices ratings 0 g self = (self, None)"
| "train_epochs rng u_indices i_indices ratings (Suc k) g self =
     (case shuffle rng g [0..<length ratings] of
        (indices, g') \<Rightarrow>
          (case run_epoch u_indices i_indices ratings indices self of
             (s, Some e) \<Rightarrow> (s, Some e)
           | (s, None) \<Rightarrow>
               if length ratings = 0 then (s, Some ZeroDivisionError)
               else train_epochs rng u_indices i_indices ratings k g' s))"

text \<open>\<^verbatim>\<open>[d[k] for k in ks]\<close>: \<^verbatim>\<open>KeyError\<close> at the first missing key.\<close>

fun lookup_all :: "(int \<times> nat) list \<Rightarrow> int list \<Rightarrow> py_error + nat list" where
  "lookup_all d [] = Inr []"
| "lookup_all d (k # ks) =
     (case map_of d k of
        None \<Rightarrow> Inl KeyError
      | Some v \<Rightarrow> bnd (lookup_all d ks) (\<lambda>vs. Inr (v # vs)))"

text \<open>
  \<^verbatim>\<open>SVDModel.fit\<close>. The model object is mutated in place, so the result is the model
  as the call left it together with the exception it raised, if any.
\<close>

definition fit ::
  "'g np_rng \<Rightarrow> SVDModel \<Rightarrow> int list \<Rightarrow> int list \<Rightarrow> real list \<Rightarrow> SVDModel \<times> py_error option" where
  "fit rng self user_ids item_ids ratings =
     (let unique_users = np_unique user_ids;
          unique_items = np_unique item_ids;
          s1 = self\<lparr>user_map := zip unique_users [0..<length unique_users],
                    item_map := zip unique_items [0..<length unique_items]\<rparr>;
          n_users = length unique_users;
          n_items = length unique_items;
          s2 = s1\<lparr>global_mean := np_mean ratings,
                  user_bias := Some (replicate n_users 0),
                  item_bias := Some (replicate n_items 0)\<rparr>;
          g0 = default_rng rng 42
      in case normal rng g0 0 (1 / 10) n_users (n_factors self) of (P, g1) \<Rightarrow>
         case normal rng g1 0 (1 / 10) n_items (n_factors self) of (Q, g2) \<Rightarrow>
         let s3 = s2\<lparr>user_factors := Some (map (map Num) P),
                     item_factors := Some (map (map Num) Q)\<rparr>
         in case lookup_all (user_map s3) user_ids of
              Inl e \<Rightarrow> (s3, Some e)
            | Inr u_indices \<Rightarrow>
                (case lookup_all (item_map s3) item_ids of
                   Inl e \<Rightarrow> (s3, Some e)
                 | Inr i_indices \<Rightarrow>
                     train_epochs rng u_indices i_indices ratings (n_epochs self) g2 s3))"

text \<open>
  What numpy documents of the generator: \<^verbatim>\<open>normal\<close> with \<^verbatim>\<open>size=(n, f)\<close> returns \<open>n\<close> rows
  of \<open>f\<close> finite samples, and \<^verbatim>\<open>shuffle\<close> returns a permutation of its argument.
\<close>

definition rng_ok :: "'g np_rng \<Rightarrow> bool" where
  "rng_ok rng \<longleftrightarrow>
     (\<forall>g loc scale n f.
        length (fst (normal rng g loc scale n f)) = n
        \<and> (\<forall>row \<in> set (fst (normal rng g loc scale n f)). length row = f))
     \<and> (\<forall>g xs. mset (fst (shuffle rng g xs)) = mset xs)"

text \<open>
  A stand-in generator for evaluating \<open>fit\<close> on concrete inputs: the state counts the
  draws, every sample is \<open>loc + scale\<close>, and a shuffle reverses the array.
\<close>

definition toy_rng :: "nat np_rng" where
  "toy_rng =
     \<lparr>default_rng = (\<lambda>seed. seed),
      normal = (\<lambda>g loc scale n f. (replicate n (replicate f (loc + scale)), g + n * f)),
      shuffle = (\<lambda>g xs. (rev xs, Suc g))\<rparr>"

text \<open>The rating scale of the data model: a finite value between 0.5 and 5.0.\<close>

fun in_rating_range :: "npfloat \<Rightarrow> bool" where
  "in_rating_range (Num x) = (1 / 2 \<le> x \<and> x \<le> 5)"
| "in_rating_range NaN = False"


text \<open>A small fitted-looking model and the model \<open>fit\<close> leaves on the three ratings
  \<open>(1, 1, 5.0)\<close>, \<open>(1, 2, 3.0)\<close>, \<open>(2, 1, 4.0)\<close> with \<open>toy_rng\<close>, one factor and one epoch;
  both serve as concrete inputs below.\<close>

definition demo_model :: SVDModel where
  "demo_model =
     \<lparr>n_factors = 1, n_epochs = 1, lr = 1 / 10, reg = 1 / 50, global_mean = Num 3,
      user_bias = Some [Num 0], item_bias = Some [Num 0],
      user_factors = Some [[Num (1 / 10)]], item_factors = Some [[Num (1 / 5)]],
      user_map = [(1, 0)], item_map = [(1, 0)]\<rparr>"

definition demo_trained :: SVDModel where
  "demo_trained =
     \<lparr>n_factors = 1, n_epochs = 1, lr = 1 / 10, reg = 1 / 50, global_mean = Num 4,
      user_bias = Some [Num (8507691 / 1000000000), Num (- (1 / 1000))],
      item_bias = Some [Num (108307691 / 1000000000), Num (- (101 / 1000))],
      user_factors = Some [[Num (1004183773927 / 10000000000000)], [Num (997 / 10000)]],
      item_factors = Some [[Num (1093053204827 / 10000000000000)], [Num (897 / 10000)]],
      user_map = [(1, 0), (2, 1)], item_map = [(1, 0), (2, 1)]\<rparr>"

section \<open>Python's sort and round\<close>

text \<open>
  \<^verbatim>\<open>sorted\<close> and \<^verbatim>\<open>list.sort\<close> compare keys with \<^verbatim>\<open><\<close> only and are stable. With
  \<^verbatim>\<open>reverse=True\<close> the list is reversed, sorted and reversed again, so elements with
  equal keys keep their original order in the descending result. \<open>lt\<close> is the key type's
  \<^verbatim>\<open><\<close>. Where \<open>lt\<close> orders the keys totally every stable sort gives this result; with a
  \<^verbatim>\<open>nan\<close> key the order CPython produces depends on its merge strategy and nothing
  below relies on it.
\<close>

primrec insort_lt :: "('k \<Rightarrow> 'k \<Rightarrow> bool) \<Rightarrow> ('a \<Rightarrow> 'k) \<Rightarrow> 'a \<Rightarrow> 'a list \<Rightarrow> 'a list" where
  "insort_lt lt key x [] = [x]"
| "insort_lt lt key x (y # ys) =
     (if lt (key y) (key x) then y # insort_lt lt key x ys else x # y # ys)"

definition py_sorted :: "('k \<Rightarrow> 'k \<Rightarrow> bool) \<Rightarrow> ('a \<Rightarrow> 'k) \<Rightarrow> 'a list \<Rightarrow> 'a list" where
  "py_sorted lt key xs = foldr (insort_lt lt key) xs []"

definition py_sorted_reverse :: "('k \<Rightarrow> 'k \<Rightarrow> bool) \<Rightarrow> ('a \<Rightarrow> 'k) \<Rightarrow> 'a list \<Rightarrow> 'a list" where
  "py_sorted_reverse lt key xs = rev (py_sorted lt key (rev xs))"

text \<open>\<^verbatim>\<open><\<close> on floats: false whenever an operand is \<^verbatim>\<open>nan\<close>.\<close>

fun np_less :: "npfloat \<Rightarrow> npfloat \<Rightarrow> bool" where
  "np_less (Num a) (Num b) = (a < b)"
| "np_less _ _ = False"

text \<open>
  \<^verbatim>\<open>round(x, 2)\<close>: the nearest multiple of \<open>0.01\<close>, a tie going to the even one;
  \<^verbatim>\<open>nan\<close> stays \<^verbatim>\<open>nan\<close>.
\<close>

definition round_half_even :: "real \<Rightarrow> int" where
  "round_half_even y =
     (let f = \<lfloor>y\<rfloor>; d = y - of_int f
      in if d < 1 / 2 then f else if 1 / 2 < d then f + 1 else if even f then f else f + 1)"

fun py_round2 :: "npfloat \<Rightarrow> npfloat" where
  "py_round2 (Num x) = Num (of_int (round_half_even (x * 100)) / 100)"
| "py_round2 NaN = NaN"

section \<open>The rating store (storage.py)\<close>

text \<open>One stored rating, and \<^verbatim>\<open>get_ratings_for_user\<close> over the list \<^verbatim>\<open>read_ratings()\<close> returns.\<close>

record rating_rec =
  r_user_id :: int
  r_movie_id :: int
  r_rating :: real
  r_timestamp :: string

definition get_ratings_for_user :: "rating_rec list \<Rightarrow> int \<Rightarrow> rating_rec list" where
  "get_ratings_for_user store user_id = filter (\<lambda>r. r_user_id r = user_id) store"

section \<open>The recommendation router (routers/recommendations\_router.py)\<close>

text \<open>A row of \<^verbatim>\<open>movies_df\<close>; the frame is the list of its rows in catalog order.\<close>

record movie =
  movieId :: int
  title :: string
  genres :: string

text \<open>
  scikit-learn and numpy are not the repository's: \<open>cosine_similarity a b\<close> is the cosine
  of two rows of the TF-IDF matrix (rows are of an abstract type \<open>'v\<close>), and \<open>argsort\<close>
  is \<^verbatim>\<open>ndarray.argsort()\<close> with its default kind, \<^verbatim>\<open>quicksort\<close>, which is not stable.
\<close>

record 'v pylibs =
  cosine_similarity :: "'v \<Rightarrow> 'v \<Rightarrow> real"
  argsort :: "real list \<Rightarrow> nat list"


text \<open>The module-level state: the catalog, the TF-IDF matrix, the unpickled model if its
  file exists, and the cached popular ids.\<close>

record 'v engine =
  movies_df :: "movie list"
  tfidf_matrix :: "'v list"
  svd_model :: "SVDModel option"
  popular_movie_ids :: "int list"

subsection \<open>The popularity cache (lines 58 to 74)\<close>





subsection \<open>Helper functions\<close>

text \<open>\<^verbatim>\<open>df.iloc[indices]\<close>: \<^verbatim>\<open>IndexError\<close> when a position is out of bounds.\<close>

fun iloc :: "'a list \<Rightarrow> nat list \<Rightarrow> py_error + 'a list" where
  "iloc xs [] = Inr []"
| "iloc xs (j # js) = bnd (py_get xs j) (\<lambda>x. bnd (iloc xs js) (\<lambda>rest. Inr (x # rest)))"

text \<open>\<^verbatim>\<open>_get_content_similar_movies\<close>\<close>

definition get_content_similar_movies ::
  "'v pylibs \<Rightarrow> 'v engine \<Rightarrow> int \<Rightarrow> int \<Rightarrow> py_error + int list" where
  "get_content_similar_movies L E movie_id top_n =
     (let idx_matches =
            filter (\<lambda>j. movieId (movies_df E ! j) = movie_id) [0..<length (movies_df E)]
      in case idx_matches of
           [] \<Rightarrow> Inr []
         | idx # _ \<Rightarrow>
             bnd (py_get (tfidf_matrix E) idx) (\<lambda>row.
               let sim_scores = map (cosine_similarity L row) (tfidf_matrix E);
                   similar_indices = py_slice (rev (argsort L sim_scores)) 1 (top_n + 1)
               in bnd (iloc (movies_df E) similar_indices) (\<lambda>rows. Inr (map movieId rows))))"

text \<open>One entry of the list \<^verbatim>\<open>_predict_svd_ratings\<close> returns.\<close>

record prediction =
  p_movieId :: int
  p_title :: string
  p_genres :: string
  predicted_rating :: npfloat

text \<open>\<^verbatim>\<open>_predict_svd_ratings\<close>: the loop over \<^verbatim>\<open>movie_ids\<close>, an exception of \<^verbatim>\<open>predict\<close>
  ending it.\<close>

fun predict_svd_ratings :: "'v engine \<Rightarrow> int \<Rightarrow> int list \<Rightarrow> py_error + prediction list" where
  "predict_svd_ratings E user_id [] = Inr []"
| "predict_svd_ratings E user_id (mid # rest) =
     (case filter (\<lambda>mv. movieId mv = mid) (movies_df E) of
        [] \<Rightarrow> predict_svd_ratings E user_id rest
      | row # _ \<Rightarrow>
          bnd (case svd_model E of
                 Some model \<Rightarrow> predict model user_id mid
               | None \<Rightarrow> Inr (Num 3)) (\<lambda>pr.
          bnd (predict_svd_ratings E user_id rest) (\<lambda>results.
            Inr (\<lparr>p_movieId = mid, p_title = title row, p_genres = genres row,
                  predicted_rating = py_round2 pr\<rparr> # results))))"

subsection \<open>Endpoints\<close>


text \<open>Step 1 of \<^verbatim>\<open>get_recommendations\<close> (lines 157 to 163): the seed movie.\<close>

definition select_seed :: "rating_rec list \<Rightarrow> py_error + int" where
  "select_seed user_ratings =
     (let liked = filter (\<lambda>r. 4 \<le> r_rating r) user_ratings;
          liked2 = (if liked = [] then py_sorted_reverse (<) r_rating user_ratings else liked)
      in if liked2 = [] then Inl IndexError else Inr (r_movie_id (last liked2)))"

text \<open>The response of \<^verbatim>\<open>get_recommendations\<close>.\<close>

record recommendations_response =
  resp_user_id :: int
  seed_movie_id :: int
  recommendations :: "prediction list"

text \<open>\<^verbatim>\<open>get_recommendations\<close>, for the authenticated user's id and the content of the
  rating store.\<close>

definition get_recommendations ::
  "'v pylibs \<Rightarrow> 'v engine \<Rightarrow> rating_rec list \<Rightarrow> int \<Rightarrow> py_error + recommendations_response" where
  "get_recommendations L E store user_id =
     (let user_ratings = get_ratings_for_user store user_id
      in if user_ratings = []
         then Inl (HTTPException 400
                ''No ratings found. Please rate some movies first (cold start).'')
         else
           bnd (select_seed user_ratings) (\<lambda>seed.
           bnd (get_content_similar_movies L E seed 30) (\<lambda>similar_ids.
             let similar_ids2 =
                   (if similar_ids = [] then py_slice (popular_movie_ids E) 0 30
                    else similar_ids);
                 rated_ids = set (map r_movie_id user_ratings);
                 similar_ids3 = filter (\<lambda>mid. mid \<notin> rated_ids) similar_ids2
             in bnd (predict_svd_ratings E user_id similar_ids3) (\<lambda>predictions.
                  Inr \<lparr>resp_user_id = user_id, seed_movie_id = seed,
                       recommendations =
                         py_slice (py_sorted_reverse np_less predicted_rating predictions) 0 10\<rparr>))))"

subsection \<open>Concrete libraries and catalogs for evaluation\<close>

text \<open>
  An \<^verbatim>\<open>argsort\<close> that is stable (what numpy's insertion sort does on short arrays), a
  stable descending sort by mean, and a library whose TF-IDF rows are genre classes:
  two rows have cosine 1 when they are of the same class and 0 otherwise.
\<close>

definition stable_argsort :: "real list \<Rightarrow> nat list" where
  "stable_argsort xs = map snd (sort_key fst (zip xs [0..<length xs]))"


definition demo_libs :: "nat pylibs" where
  "demo_libs =
     \<lparr>cosine_similarity = (\<lambda>a b. if a = b then 1 else 0), argsort = stable_argsort\<rparr>"

definition mk_movie :: "int \<Rightarrow> string \<Rightarrow> movie" where
  "mk_movie k g = \<lparr>movieId = k, title = ''Movie'', genres = g\<rparr>"

definition mk_rating :: "int \<Rightarrow> int \<Rightarrow> real \<Rightarrow> rating_rec" where
  "mk_rating u k v = \<lparr>r_user_id = u, r_movie_id = k, r_rating = v, r_timestamp = ''t''\<rparr>"

text \<open>Three movies of one genre.\<close>

definition same_genre_engine :: "nat engine" where
  "same_genre_engine =
     \<lparr>movies_df = [mk_movie 1 ''Action'', mk_movie 2 ''Action'', mk_movie 3 ''Action''],
      tfidf_matrix = [0, 0, 0], svd_model = None, popular_movie_ids = []\<rparr>"

text \<open>Five movies of two genres, the model \<open>demo_trained\<close> and two popular ids.\<close>

definition demo_engine :: "nat engine" where
  "demo_engine =
     \<lparr>movies_df = [mk_movie 1 ''Action'', mk_movie 2 ''Action'', mk_movie 3 ''Drama'',
                   mk_movie 4 ''Drama'', mk_movie 5 ''Action''],
      tfidf_matrix = [0, 0, 1, 1, 0], svd_model = Some demo_trained,
      popular_movie_ids = [4, 7]\<rparr>"

definition demo_store :: "rating_rec list" where
  "demo_store = [mk_rating 2 1 4, mk_rating 5 3 2, mk_rating 5 1 3, mk_rating 5 4 2]"

definition demo_response :: recommendations_response where
  "demo_response =
     \<lparr>resp_user_id = 2, seed_movie_id = 1,
      recommendations =
        [\<lparr>p_movieId = 4, p_title = ''Movie'', p_genres = ''Drama'', predicted_rating = Num 4\<rparr>,
         \<lparr>p_movieId = 3, p_title = ''Movie'', p_genres = ''Drama'', predicted_rating = Num 4\<rparr>,
         \<lparr>p_movieId = 2, p_title = ''Movie'', p_genres = ''Action'',
           predicted_rating = Num (391 / 100)\<rparr>]\<rparr>"


subsection \<open>Count and mean of an item's ratings\<close>



section \<open>Properties of the latent factor model\<close>

subsection \<open>Reads, errors and finite arithmetic\<close>

lemma bnd_Inr_iff: "bnd x f = Inr y \<longleftrightarrow> (\<exists>a. x = Inr a \<and> f a = Inr y)"
  by (cases x) auto

lemma py_get_Inr_iff: "py_get xs i = Inr a \<longleftrightarrow> i < length xs \<and> a = xs ! i"
  by (auto simp: py_get_def)

lemma arr_get_Inr_iff:
  "arr_get a i = Inr x \<longleftrightarrow> (\<exists>xs. a = Some xs \<and> i < length xs \<and> x = xs ! i)"
  by (auto simp: arr_get_def py_get_Inr_iff split: option.splits)



















subsection \<open>The generator's contract\<close>

lemma rng_ok_rows: "rng_ok rng \<Longrightarrow> length (fst (normal rng g loc scale n f)) = n"
  by (simp add: rng_ok_def)


lemma rng_ok_shuffle: "rng_ok rng \<Longrightarrow> mset (fst (shuffle rng g xs)) = mset xs"
  by (simp add: rng_ok_def)

lemma toy_rng_ok: "rng_ok toy_rng"
  by (simp add: rng_ok_def toy_rng_def)


subsection \<open>Prediction before training\<close>

text \<open>
  C10. \<^verbatim>\<open>predict\<close> on a model that was never fitted raises nothing: both id maps are
  empty, so for every pair of ids the unknown-id branch returns the initial
  \<^verbatim>\<open>global_mean\<close>, \<open>0.0\<close>, and the arrays, still \<^verbatim>\<open>None\<close>, are never subscripted (that
  would be the \<^verbatim>\<open>TypeError\<close> of \<open>arr_get\<close>). The value \<open>0.0\<close> lies outside the rating
  range from 0.5 to 5.0.
\<close>

theorem predict_unfitted:
  "predict (SVDModel_init nf ne l r) user_id item_id = Inr (Num 0)
   \<and> global_mean (SVDModel_init nf ne l r) = Num 0
   \<and> user_map (SVDModel_init nf ne l r) = [] \<and> item_map (SVDModel_init nf ne l r) = []
   \<and> user_bias (SVDModel_init nf ne l r) = None \<and> item_bias (SVDModel_init nf ne l r) = None
   \<and> user_factors (SVDModel_init nf ne l r) = None \<and> item_factors (SVDModel_init nf ne l r) = None
   \<and> \<not> in_rating_range (Num 0)"
  by (simp add: predict_def SVDModel_init_def)

subsection \<open>One SGD step\<close>



lemma demo_step:
  "sgd_step [0] [0] [4] demo_model 0 =
     Inr (demo_model\<lparr>user_bias := Some [Num (49 / 500)], item_bias := Some [Num (49 / 500)],
           user_factors := Some [[Num (597 / 5000)]], item_factors := Some [[Num (1047 / 5000)]]\<rparr>)"
  by (simp add: sgd_step_def demo_model_def py_get_def arr_get_def np_dot_def Let_def
      upd_user_bias_def upd_item_bias_def upd_user_factors_def upd_item_factors_def row_copy_def
      vec_add_def vec_sub_def vec_scale_def zero_npfloat_def)

text \<open>
  C7. In every SGD step that runs to its end, the new row \<open>u\<close> of \<^verbatim>\<open>user_factors\<close> is
  computed from the row \<open>i\<close> of \<^verbatim>\<open>item_factors\<close> as it was before the step, and the new
  row \<open>i\<close> of \<^verbatim>\<open>item_factors\<close> from the row \<open>u\<close> of \<^verbatim>\<open>user_factors\<close> as it was before the
  step (the copy \<^verbatim>\<open>uf\<close>), with the error of the prediction made from the state before
  the step. \<open>P\<close> and \<open>Q\<close> are the two matrices before the step.
\<close>

theorem sgd_step_pre_update_factors:
  assumes "sgd_step u_indices i_indices ratings s idx = Inr s'"
  shows "\<exists>bu bi P Q d.
           idx < length u_indices \<and> idx < length i_indices \<and> idx < length ratings
           \<and> user_bias s = Some bu \<and> item_bias s = Some bi
           \<and> user_factors s = Some P \<and> item_factors s = Some Q
           \<and> np_dot (P ! (u_indices ! idx)) (Q ! (i_indices ! idx)) = Inr d
           \<and> (let u = u_indices ! idx; i = i_indices ! idx;
                   err = Num (ratings ! idx) - (global_mean s + bu ! u + bi ! i + d)
               in user_factors s' =
                    Some (P[u := vec_add (P ! u) (vec_scale (Num (lr s))
                            (vec_sub (vec_scale err (Q ! i)) (vec_scale (Num (reg s)) (P ! u))))])
                  \<and> item_factors s' =
                    Some (Q[i := vec_add (Q ! i) (vec_scale (Num (lr s))
                            (vec_sub (vec_scale err (P ! u)) (vec_scale (Num (reg s)) (Q ! i))))]))"
  using assms
  by (auto simp: sgd_step_def bnd_Inr_iff py_get_Inr_iff arr_get_Inr_iff Let_def
      upd_user_bias_def upd_item_bias_def upd_user_factors_def upd_item_factors_def row_copy_def)

text \<open>
  On \<open>demo_model\<close> with the rating \<open>4\<close>: the prediction is \<open>3 + 0 + 0 + 1/50\<close>, and both
  new rows use the other side's old entry (\<open>1/5\<close> and \<open>1/10\<close>).
\<close>

theorem sgd_step_pre_update_factors_witness:
  "\<exists>s'. sgd_step [0] [0] [4] demo_model 0 = Inr s'
     \<and> user_factors s' =
         Some [[Num (1 / 10 + 1 / 10 * ((4 - (3 + 0 + 0 + 1 / 50)) * (1 / 5) - 1 / 50 * (1 / 10)))]]
     \<and> item_factors s' =
         Some [[Num (1 / 5 + 1 / 10 * ((4 - (3 + 0 + 0 + 1 / 50)) * (1 / 10) - 1 / 50 * (1 / 5)))]]"
  using sgd_step_pre_update_factors [OF demo_step]
  by (simp add: demo_step)

subsection \<open>Training\<close>




lemma train_epochs_empty:
  assumes "\<And>g. fst (shuffle rng g []) = []"
  shows "train_epochs rng [] [] [] k g s = (s, if k = 0 then None else Some ZeroDivisionError)"
  using assms [of g] by (cases k) (auto split: prod.splits)








subsection \<open>Determinism of training\<close>




subsection \<open>Training on no ratings\<close>

text \<open>
  C8, as the code has it. \<^verbatim>\<open>fit\<close> validates nothing. Called with no rating triples it
  first overwrites the model: both id maps empty, \<^verbatim>\<open>global_mean\<close> the mean of an empty
  array (\<^verbatim>\<open>nan\<close>), both biases and both factor matrices empty arrays. Only then, when
  \<^verbatim>\<open>n_epochs\<close> is at least 1, the first epoch's RMSE divides by zero and the call fails
  with \<^verbatim>\<open>ZeroDivisionError\<close>; with \<^verbatim>\<open>n_epochs = 0\<close> the call returns normally.
\<close>

theorem fit_empty_overwrites_then_fails:
  assumes "rng_ok rng"
  shows "fit rng self [] [] [] =
     (self\<lparr>user_map := [], item_map := [], global_mean := NaN,
            user_bias := Some [], item_bias := Some [],
            user_factors := Some [], item_factors := Some []\<rparr>,
      if n_epochs self = 0 then None else Some ZeroDivisionError)"
proof -
  have n: "fst (normal rng g loc scale 0 f) = []" for g loc scale f
    using rng_ok_rows [OF assms, of g loc scale 0 f] by simp
  have sh: "fst (shuffle rng g []) = []" for g
    using rng_ok_shuffle [OF assms, of g "[]"] by simp
  have n': "normal rng g loc scale 0 f = (P, g') \<Longrightarrow> P = []" for g loc scale f P g'
    using n [of g loc scale f] by simp
  show ?thesis
    by (auto simp: fit_def np_unique_def np_mean_def Let_def train_epochs_empty [OF sh]
        split: prod.splits dest!: n')
qed

theorem fit_empty_overwrites_then_fails_witness:
  "fit toy_rng (SVDModel_init 50 3 (1 / 200) (1 / 50)) [] [] [] =
     (\<lparr>n_factors = 50, n_epochs = 3, lr = 1 / 200, reg = 1 / 50, global_mean = NaN,
       user_bias = Some [], item_bias = Some [], user_factors = Some [], item_factors = Some [],
       user_map = [], item_map = []\<rparr>, Some ZeroDivisionError)
   \<and> fit toy_rng (SVDModel_init 50 0 (1 / 200) (1 / 50)) [] [] [] =
     (\<lparr>n_factors = 50, n_epochs = 0, lr = 1 / 200, reg = 1 / 50, global_mean = NaN,
       user_bias = Some [], item_bias = Some [], user_factors = Some [], item_factors = Some [],
       user_map = [], item_map = []\<rparr>, None)"
  using fit_empty_overwrites_then_fails [OF toy_rng_ok, of "SVDModel_init 50 3 (1 / 200) (1 / 50)"]
    fit_empty_overwrites_then_fails [OF toy_rng_ok, of "SVDModel_init 50 0 (1 / 200) (1 / 50)"]
  by (simp add: SVDModel_init_def)

text \<open>
  With the default hyperparameters the call on no triples does fail, but the model is
  not what it was before the call: \<^verbatim>\<open>user_bias\<close> went from \<^verbatim>\<open>None\<close> to an empty array and
  \<^verbatim>\<open>global_mean\<close> from \<open>0.0\<close> to \<^verbatim>\<open>nan\<close>. (Neither depends on the generator.)
\<close>

theorem fit_empty_counterexample:
  "snd (fit toy_rng (SVDModel_init 50 20 (1 / 200) (1 / 50)) [] [] []) = Some ZeroDivisionError
   \<and> fst (fit toy_rng (SVDModel_init 50 20 (1 / 200) (1 / 50)) [] [] [])
       \<noteq> SVDModel_init 50 20 (1 / 200) (1 / 50)
   \<and> user_bias (SVDModel_init 50 20 (1 / 200) (1 / 50)) = None
   \<and> user_bias (fst (fit toy_rng (SVDModel_init 50 20 (1 / 200) (1 / 50)) [] [] [])) = Some []
   \<and> global_mean (SVDModel_init 50 20 (1 / 200) (1 / 50)) = Num 0
   \<and> global_mean (fst (fit toy_rng (SVDModel_init 50 20 (1 / 200) (1 / 50)) [] [] [])) = NaN"
proof -
  have sh: "fst (shuffle toy_rng g []) = []" for g
    by (simp add: toy_rng_def)
  have "fit toy_rng (SVDModel_init 50 20 (1 / 200) (1 / 50)) [] [] [] =
     (\<lparr>n_factors = 50, n_epochs = 20, lr = 1 / 200, reg = 1 / 50, global_mean = NaN,
       user_bias = Some [], item_bias = Some [], user_factors = Some [], item_factors = Some [],
       user_map = [], item_map = []\<rparr>, Some ZeroDivisionError)"
    by (simp add: fit_def np_unique_def np_mean_def Let_def train_epochs_empty [OF sh]
        SVDModel_init_def) (simp add: toy_rng_def)
  then show ?thesis by (simp add: SVDModel_init_def)
qed

subsection \<open>Prediction after training\<close>




section \<open>Properties of the recommendation router\<close>

subsection \<open>Sorting and slicing\<close>

lemma set_insort_lt: "set (insort_lt lt key x xs) = insert x (set xs)"
  by (induction xs) auto

lemma set_py_sorted: "set (py_sorted lt key xs) = set xs"
  by (induction xs) (simp_all add: py_sorted_def set_insort_lt)

lemma set_py_sorted_reverse: "set (py_sorted_reverse lt key xs) = set xs"
  by (simp add: py_sorted_reverse_def set_py_sorted)

lemma insort_lt_linorder: "insort_lt (<) key x xs = insort_key key x xs"
  for key :: "'a \<Rightarrow> 'k :: linorder"
  by (induction xs) (auto simp: not_less)

lemma py_sorted_linorder: "py_sorted (<) key xs = sort_key key xs"
  for key :: "'a \<Rightarrow> 'k :: linorder"
  by (induction xs) (simp_all add: py_sorted_def insort_lt_linorder)

lemma py_sorted_reverse_linorder: "py_sorted_reverse (<) key xs = rev (sort_key key (rev xs))"
  for key :: "'a \<Rightarrow> 'k :: linorder"
  by (simp add: py_sorted_reverse_def py_sorted_linorder)

lemma last_py_sorted_reverse_min:
  fixes key :: "'a \<Rightarrow> 'k :: linorder"
  assumes "xs \<noteq> []" "x \<in> set xs"
  shows "key (last (py_sorted_reverse (<) key xs)) \<le> key x"
proof -
  let ?ys = "sort_key key (rev xs)"
  have ne: "?ys \<noteq> []" using assms(1) by (metis length_0_conv length_sort length_rev)
  have "last (py_sorted_reverse (<) key xs) = hd ?ys"
    using ne by (simp add: py_sorted_reverse_linorder last_rev)
  moreover have "sorted (map key ?ys)" by (rule sorted_sort_key)
  moreover have "x \<in> set ?ys" using assms(2) by simp
  ultimately show ?thesis
    using ne by (cases ?ys) (auto)
qed

lemma py_slice_prefix: "0 \<le> n \<Longrightarrow> py_slice xs 0 n = take (nat n) xs"
  by (auto simp: py_slice_def Let_def min_def)

lemma set_py_slice: "set (py_slice xs a b) \<subseteq> set xs"
  by (auto simp: py_slice_def Let_def dest: in_set_dropD in_set_takeD)

lemma length_py_slice_prefix: "0 \<le> n \<Longrightarrow> length (py_slice xs 0 n) \<le> nat n"
  by (simp add: py_slice_prefix)

subsection \<open>Evaluation on the concrete catalog\<close>

lemmas router_eval = get_recommendations_def get_ratings_for_user_def select_seed_def
  get_content_similar_movies_def py_slice_def py_sorted_reverse_def py_sorted_def
  demo_libs_def demo_engine_def demo_store_def mk_movie_def mk_rating_def stable_argsort_def
  py_get_def Let_def upt_conv_Cons

lemma demo_recommendations:
  "get_recommendations demo_libs demo_engine demo_store 2 = Inr demo_response"
  by (simp add: router_eval demo_response_def predict_def demo_trained_def arr_get_def
      np_dot_def zero_npfloat_def round_half_even_def)

subsection \<open>The recommendation endpoint\<close>

lemma predict_svd_ratings_ids:
  "predict_svd_ratings E user_id mids = Inr res \<Longrightarrow> p_movieId ` set res \<subseteq> set mids"
proof (induction mids arbitrary: res)
  case Nil
  then show ?case by simp
next
  case (Cons mid rest)
  show ?case
  proof (cases "filter (\<lambda>mv. movieId mv = mid) (movies_df E)")
    case Nil
    with Cons show ?thesis by auto
  next
    case (Cons row rows)
    with Cons.prems obtain pr results where
      "predict_svd_ratings E user_id rest = Inr results"
      "res = \<lparr>p_movieId = mid, p_title = title row, p_genres = genres row,
              predicted_rating = py_round2 pr\<rparr> # results"
      by (auto simp: bnd_Inr_iff)
    with Cons.IH [of results] show ?thesis by auto
  qed
qed

text \<open>
  C4. When the user has no stored rating, \<^verbatim>\<open>get_recommendations\<close> raises: the result is
  the \<^verbatim>\<open>HTTPException\<close> with status 400 and the detail naming the cold start, whatever
  the catalog, the model and the popularity cache hold. No list is returned, neither an
  empty one nor the popular movies.
\<close>

theorem recommend_empty_history:
  assumes "get_ratings_for_user store user_id = []"
  shows "get_recommendations L E store user_id =
           Inl (HTTPException 400 ''No ratings found. Please rate some movies first (cold start).'')"
  using assms by (simp add: get_recommendations_def)

text \<open>What a call that returned has computed.\<close>

lemma recommendations_Inr:
  assumes "get_recommendations L E store user_id = Inr resp"
  shows "\<exists>seed similar_ids predictions.
           get_ratings_for_user store user_id \<noteq> []
           \<and> select_seed (get_ratings_for_user store user_id) = Inr seed
           \<and> get_content_similar_movies L E seed 30 = Inr similar_ids
           \<and> predict_svd_ratings E user_id
                (filter (\<lambda>mid. mid \<notin> set (map r_movie_id (get_ratings_for_user store user_id)))
                   (if similar_ids = [] then py_slice (popular_movie_ids E) 0 30 else similar_ids))
               = Inr predictions
           \<and> resp = \<lparr>resp_user_id = user_id, seed_movie_id = seed,
                      recommendations =
                        py_slice (py_sorted_reverse np_less predicted_rating predictions) 0 10\<rparr>"
proof -
  let ?h = "get_ratings_for_user store user_id"
  have ne: "?h \<noteq> []"
    using assms by (auto simp: get_recommendations_def)
  obtain seed where seed: "select_seed ?h = Inr seed"
    using assms ne by (cases "select_seed ?h") (simp_all add: get_recommendations_def)
  obtain similar_ids where sim: "get_content_similar_movies L E seed 30 = Inr similar_ids"
    using assms ne seed
    by (cases "get_content_similar_movies L E seed 30") (simp_all add: get_recommendations_def)
  let ?c = "filter (\<lambda>mid. mid \<notin> set (map r_movie_id ?h))
              (if similar_ids = [] then py_slice (popular_movie_ids E) 0 30 else similar_ids)"
  obtain predictions where pr: "predict_svd_ratings E user_id ?c = Inr predictions"
    using assms ne seed sim
    by (cases "predict_svd_ratings E user_id ?c") (simp_all add: get_recommendations_def Let_def)
  have "resp = \<lparr>resp_user_id = user_id, seed_movie_id = seed,
                recommendations =
                  py_slice (py_sorted_reverse np_less predicted_rating predictions) 0 10\<rparr>"
    using assms ne seed sim pr by (simp add: get_recommendations_def Let_def)
  with ne seed sim pr show ?thesis by blast
qed

theorem recommend_empty_history_witness:
  "get_recommendations demo_libs demo_engine demo_store 1 =
     Inl (HTTPException 400 ''No ratings found. Please rate some movies first (cold start).'')"
  using recommend_empty_history [of demo_store 1 demo_libs demo_engine]
  by (simp add: get_ratings_for_user_def demo_store_def mk_rating_def)

text \<open>
  C2. Whenever \<^verbatim>\<open>get_recommendations\<close> returns a response (the user's rating history
  is then not empty), the response lists at most 10 movies, and none of them is a movie
  of the user's rating history.
\<close>

theorem recommend_excludes_rated:
  assumes "get_recommendations L E store user_id = Inr resp"
  shows "get_ratings_for_user store user_id \<noteq> []
         \<and> length (recommendations resp) \<le> 10
         \<and> (\<forall>p \<in> set (recommendations resp).
               p_movieId p \<notin> r_movie_id ` set (get_ratings_for_user store user_id))"
proof -
  let ?h = "get_ratings_for_user store user_id"
  from recommendations_Inr [OF assms] obtain seed similar_ids predictions where
    ne: "?h \<noteq> []"
    and pr: "predict_svd_ratings E user_id
                (filter (\<lambda>mid. mid \<notin> set (map r_movie_id ?h))
                   (if similar_ids = [] then py_slice (popular_movie_ids E) 0 30 else similar_ids))
               = Inr predictions"
    and resp: "recommendations resp =
                 py_slice (py_sorted_reverse np_less predicted_rating predictions) 0 10"
    by auto
  have len: "length (recommendations resp) \<le> 10"
    using length_py_slice_prefix [of 10] by (simp add: resp)
  have "set (recommendations resp) \<subseteq> set predictions"
    using set_py_slice [of "py_sorted_reverse np_less predicted_rating predictions" 0 10]
    by (simp add: resp set_py_sorted_reverse)
  moreover have "p_movieId ` set predictions \<subseteq> - (r_movie_id ` set ?h)"
    using predict_svd_ratings_ids [OF pr] by auto
  ultimately have "\<forall>p \<in> set (recommendations resp). p_movieId p \<notin> r_movie_id ` set ?h"
    by blast
  with ne len show ?thesis by simp
qed

text \<open>User 2 has rated movie 1 only; the three recommendations are other movies.\<close>

theorem recommend_excludes_rated_witness:
  "get_recommendations demo_libs demo_engine demo_store 2 = Inr demo_response
   \<and> map p_movieId (recommendations demo_response) = [4, 3, 2]
   \<and> map r_movie_id (get_ratings_for_user demo_store 2) = [1]
   \<and> length (recommendations demo_response) \<le> 10
   \<and> p_movieId ` set (recommendations demo_response)
       \<inter> r_movie_id ` set (get_ratings_for_user demo_store 2) = {}"
proof -
  from recommend_excludes_rated [OF demo_recommendations]
  have "length (recommendations demo_response) \<le> 10"
    and "p_movieId ` set (recommendations demo_response)
         \<inter> r_movie_id ` set (get_ratings_for_user demo_store 2) = {}"
    by blast+
  moreover have "map p_movieId (recommendations demo_response) = [4, 3, 2]"
    by (simp add: demo_response_def)
  moreover have "map r_movie_id (get_ratings_for_user demo_store 2) = [1]"
    by (simp add: get_ratings_for_user_def demo_store_def mk_rating_def)
  ultimately show ?thesis using demo_recommendations by simp
qed

text \<open>
  C3. For a non-empty rating history the seed is found so: the history is filtered to
  the ratings of at least 4.0; if any is left, the seed is the movie of the last of them,
  in the order of the history; if none is left, the history is sorted by rating,
  descending, and the seed is the movie of the last element of that sorted list, a
  rating of the history that no other one is below. The response of
  \<^verbatim>\<open>get_recommendations\<close> carries this seed.
\<close>

theorem seed_selection:
  assumes "user_ratings \<noteq> []"
  shows "select_seed user_ratings =
           Inr (r_movie_id (last (if filter (\<lambda>r. 4 \<le> r_rating r) user_ratings \<noteq> []
                                  then filter (\<lambda>r. 4 \<le> r_rating r) user_ratings
                                  else py_sorted_reverse (<) r_rating user_ratings)))
         \<and> (filter (\<lambda>r. 4 \<le> r_rating r) user_ratings = [] \<longrightarrow>
              (\<forall>r \<in> set user_ratings.
                 r_rating (last (py_sorted_reverse (<) r_rating user_ratings)) \<le> r_rating r))
         \<and> last (py_sorted_reverse (<) r_rating user_ratings) \<in> set user_ratings
         \<and> (\<forall>L E store user_id resp.
               get_ratings_for_user store user_id = user_ratings
               \<and> get_recommendations L E store user_id = Inr resp
               \<longrightarrow> Inr (seed_movie_id resp) = select_seed user_ratings)"
proof -
  have ne: "py_sorted_reverse (<) r_rating user_ratings \<noteq> []"
    using assms set_py_sorted_reverse [of "(<)" r_rating user_ratings] by (metis set_empty)
  have a: "select_seed user_ratings =
           Inr (r_movie_id (last (if filter (\<lambda>r. 4 \<le> r_rating r) user_ratings \<noteq> []
                                  then filter (\<lambda>r. 4 \<le> r_rating r) user_ratings
                                  else py_sorted_reverse (<) r_rating user_ratings)))"
    using ne by (simp add: select_seed_def Let_def)
  have b: "\<forall>r \<in> set user_ratings.
             r_rating (last (py_sorted_reverse (<) r_rating user_ratings)) \<le> r_rating r"
    using last_py_sorted_reverse_min [OF assms] by blast
  have c: "last (py_sorted_reverse (<) r_rating user_ratings) \<in> set user_ratings"
    using last_in_set [OF ne] by (simp add: set_py_sorted_reverse)
  have d: "Inr (seed_movie_id resp) = select_seed user_ratings"
    if "get_ratings_for_user store user_id = user_ratings"
       "get_recommendations L E store user_id = Inr resp"
    for L :: "'v pylibs" and E store user_id resp
    using recommendations_Inr [OF that(2)] that(1) by auto
  show ?thesis using a b c d by blast
qed

text \<open>
  User 5 rated the movies 3, 1 and 4 with 2.0, 3.0 and 2.0: nothing is liked, the
  descending sort is 1, 3, 4, and the seed is movie 4. User 2 liked movie 1.
\<close>

theorem seed_selection_witness:
  "select_seed (get_ratings_for_user demo_store 5) = Inr 4
   \<and> map r_movie_id (py_sorted_reverse (<) r_rating (get_ratings_for_user demo_store 5)) = [1, 3, 4]
   \<and> select_seed (get_ratings_for_user demo_store 2) = Inr 1"
proof -
  have ne5: "get_ratings_for_user demo_store 5 \<noteq> []"
    and ne2: "get_ratings_for_user demo_store 2 \<noteq> []"
    by (simp_all add: get_ratings_for_user_def demo_store_def mk_rating_def)
  have "select_seed (get_ratings_for_user demo_store 5) = Inr 4"
    using seed_selection [OF ne5] by (simp add: router_eval)
  moreover have "select_seed (get_ratings_for_user demo_store 2) = Inr 1"
    using seed_selection [OF ne2] by (simp add: router_eval)
  moreover have
    "map r_movie_id (py_sorted_reverse (<) r_rating (get_ratings_for_user demo_store 5)) = [1, 3, 4]"
    by (simp add: router_eval)
  ultimately show ?thesis by simp
qed

subsection \<open>Content similarity\<close>











text \<open>
  Three movies of one genre have the similarities \<open>1, 1, 1\<close> to each other. The same
  array is sorted for the queries 1 and 2, so whatever order \<^verbatim>\<open>argsort\<close> gives to equal
  entries, both queries return the same list: it cannot be the other two movies in
  catalog order for both.
\<close>

lemma similar_same_genre_any_lib:
  "get_content_similar_movies L same_genre_engine 1 2 =
   get_content_similar_movies L same_genre_engine 2 2"
  by (simp add: get_content_similar_movies_def same_genre_engine_def mk_movie_def Let_def
      py_get_def upt_conv_Cons)




subsection \<open>The popularity cache\<close>


















end
